theory Spec2Isabelle
  imports Main
begin

section \<open>Go strings and the library calls of the plugin\<close>

text \<open>
  Go strings are byte sequences; a \<^typ>\<open>string\<close> is the list of its bytes. Three bytes
  of the plugin's output are written by code: the double quote (the separator of
  \<^verbatim>\<open>strings.Split(m, "\"")\<close> and the delimiter of the emitted path literal), the tab that
  indents the emitted lines, and the back quote of the emitted raw string.
\<close>

definition dquote :: char where
  "dquote = CHR 0x22"

definition tab :: string where
  "tab = [CHR 0x09]"

definition bquote :: string where
  "bquote = [CHR 0x60]"

text \<open>
  \<^verbatim>\<open>strings.ToLower\<close> on ASCII text: a byte in \<^verbatim>\<open>'A'..'Z'\<close> (0x41..0x5A, bit 5 clear)
  gets \<^verbatim>\<open>'a' - 'A'\<close> = 32 added, which sets bit 5; every other byte is kept. Service
  names, method names and paths are ASCII; bytes above 0x7F are left as they are.
\<close>

definition isASCIIUpper :: "char \<Rightarrow> bool" where
  "isASCIIUpper c = (65 \<le> (of_char c :: nat) \<and> (of_char c :: nat) \<le> 90)"

definition isASCIILower :: "char \<Rightarrow> bool" where
  "isASCIILower c = (97 \<le> (of_char c :: nat) \<and> (of_char c :: nat) \<le> 122)"

definition isASCIIDigit :: "char \<Rightarrow> bool" where
  "isASCIIDigit c = (48 \<le> (of_char c :: nat) \<and> (of_char c :: nat) \<le> 57)"

definition toLowerChar :: "char \<Rightarrow> char" where
  "toLowerChar c =
     (if isASCIIUpper c
      then (case c of Char b0 b1 b2 b3 b4 b5 b6 b7 \<Rightarrow> Char b0 b1 b2 b3 b4 True b6 b7)
      else c)"

definition toUpperChar :: "char \<Rightarrow> char" where
  "toUpperChar c =
     (if isASCIILower c
      then (case c of Char b0 b1 b2 b3 b4 b5 b6 b7 \<Rightarrow> Char b0 b1 b2 b3 b4 False b6 b7)
      else c)"

definition ToLower :: "string \<Rightarrow> string" where
  "ToLower s = map toLowerChar s"

text \<open>
  \<^verbatim>\<open>strings.Split(s, sep)\<close> for a one-byte separator: the pieces of \<open>s\<close> between the
  occurrences of \<open>sep\<close>, one more piece than there are separators, empty pieces kept.
  \<open>splitFrom\<close> is the library's loop: \<open>piece\<close> is the text since the last separator.
\<close>

fun splitFrom :: "string \<Rightarrow> string \<Rightarrow> char \<Rightarrow> string list" where
  "splitFrom piece [] sep = [piece]"
| "splitFrom piece (c # cs) sep =
     (if c = sep then piece # splitFrom [] cs sep else splitFrom (piece @ [c]) cs sep)"

definition Split :: "string \<Rightarrow> char \<Rightarrow> string list" where
  "Split s sep = splitFrom [] s sep"

text \<open>
  Indexing a slice panics out of range. The plugin reads \<^verbatim>\<open>parts[0]\<close> and
  \<^verbatim>\<open>parts[1]\<close>; the model keeps the bounds check, so that a panic is a value.
\<close>

datatype panic = IndexOutOfRange

definition index :: "'a list \<Rightarrow> nat \<Rightarrow> panic + 'a" where
  "index xs i = (if i < length xs then Inr (xs ! i) else Inl IndexOutOfRange)"

text \<open>
  \<^verbatim>\<open>g.P(args...)\<close> prints its arguments one after the other and ends the line. The
  plugin never changes the generator's indentation, and every argument it passes is a
  string, so a call adds the concatenation of its arguments as one line of output.
\<close>

definition P :: "string list \<Rightarrow> string" where
  "P args = concat args"

section \<open>Descriptors and the generator's capabilities\<close>

text \<open>
  The fields of \<^verbatim>\<open>pb.MethodDescriptorProto\<close> and \<^verbatim>\<open>pb.ServiceDescriptorProto\<close> that
  the plugin reads, under the names of their getters. \<open>GetOptionsString\<close> is the text
  \<^verbatim>\<open>method.GetOptions().String()\<close> returns (the spec's \<open>rawOptionsBlob\<close>).
\<close>

record MethodDescriptorProto =
  GetName :: string
  GetInputType :: string
  GetOutputType :: string
  GetServerStreaming :: bool
  GetClientStreaming :: bool
  GetOptionsString :: string

record ServiceDescriptorProto =
  GetServiceName :: string
  Method :: "MethodDescriptorProto list"

text \<open>
  Package \<^verbatim>\<open>generator\<close> is imported, not part of the plugin's file: its
  \<^verbatim>\<open>generator.CamelCase\<close> and \<^verbatim>\<open>g.gen.TypeName(g.objectNamed(str))\<close> are capabilities the
  plugin is given (section 6 of the spec: an identifier-casing capability and a
  type-naming capability). The plugin's functions take them as a parameter.
\<close>

record Generator =
  genCamelCase :: "string \<Rightarrow> string"
  genTypeName :: "string \<Rightarrow> string"

text \<open>
  Modelled from the spec: \<^verbatim>\<open>generator.CamelCase\<close>, which is not under src/. The spec calls
  it a stable camel-casing of raw names; the definition follows the algorithm of
  protoc-gen-go: a leading underscore becomes \<open>X\<close>; an underscore before a lower-case
  letter is dropped; a digit is copied; any other byte starts a word, is upper-cased when
  it is a lower-case letter, and takes the lower-case letters after it unchanged. It is
  used only to instantiate the capability at concrete inputs.
\<close>

function camelWords :: "string \<Rightarrow> string" where
  "camelWords [] = []"
| "camelWords (c # cs) =
     (if c = CHR ''_'' \<and> cs \<noteq> [] \<and> isASCIILower (hd cs) then camelWords cs
      else if isASCIIDigit c then c # camelWords cs
      else toUpperChar c # takeWhile isASCIILower cs @ camelWords (dropWhile isASCIILower cs))"
  by pat_completeness auto
termination
  by (relation "measure length") (auto simp: length_dropWhile_le less_Suc_eq_le)

definition CamelCase :: "string \<Rightarrow> string" where
  "CamelCase s =
     (if s = [] then []
      else if hd s = CHR ''_'' then CHR ''X'' # camelWords (tl s)
      else camelWords s)"

definition protocGen :: Generator where
  "protocGen = \<lparr> genCamelCase = CamelCase, genTypeName = CamelCase \<rparr>"

section \<open>The route of a method\<close>

text \<open>
  The body of the first loop of \<^verbatim>\<open>generateService\<close> (lines 154 to 168), up to the path it
  prints: the default path, replaced by \<^verbatim>\<open>parts[1]\<close> when the options text is not empty,
  splits on the double quote into three parts and starts with \<^verbatim>\<open>10000:\<close>.
\<close>

definition defaultPath :: "string \<Rightarrow> MethodDescriptorProto \<Rightarrow> string" where
  "defaultPath servName method = ToLower servName @ ''/'' @ GetName method"

definition methodPath :: "string \<Rightarrow> MethodDescriptorProto \<Rightarrow> panic + string" where
  "methodPath servName method =
     (let path = defaultPath servName method;
          m = GetOptionsString method
      in if m \<noteq> [] then
           (let parts = Split m dquote
            in if length parts = 3 then
                 (case index parts 0 of
                    Inl e \<Rightarrow> Inl e
                  | Inr p0 \<Rightarrow> if p0 = ''10000:'' then index parts 1 else Inr path)
               else Inr path)
         else Inr path)"

text \<open>
  The line the loop prints for one method:
  \<^verbatim>\<open>g.P("router.Handle(prefix+\"", strings.ToLower(path), "\", t.", methName, ")")\<close>.
\<close>

definition routeLine :: "Generator \<Rightarrow> string \<Rightarrow> MethodDescriptorProto \<Rightarrow> panic + string" where
  "routeLine g servName method =
     (let methName = genCamelCase g (GetName method)
      in case methodPath servName method of
           Inl e \<Rightarrow> Inl e
         | Inr path \<Rightarrow>
             Inr (P [''router.Handle(prefix+'' @ [dquote], ToLower path,
                     [dquote] @ '', t.'', methName, '')'']))"

fun routeLines :: "Generator \<Rightarrow> string \<Rightarrow> MethodDescriptorProto list \<Rightarrow> panic + string list" where
  "routeLines g servName [] = Inr []"
| "routeLines g servName (method # rest) =
     (case routeLine g servName method of
        Inl e \<Rightarrow> Inl e
      | Inr l \<Rightarrow>
          (case routeLines g servName rest of
             Inl e \<Rightarrow> Inl e
           | Inr ls \<Rightarrow> Inr (l # ls)))"

section \<open>The emitted handler, as text\<close>

text \<open>
  \<^verbatim>\<open>generateServerMethod\<close> (lines 209 to 255): the lines it prints, and the handler name
  it returns. The two type names are computed before the first line is printed.
\<close>

definition handlerName :: "string \<Rightarrow> string \<Rightarrow> string" where
  "handlerName servName methName = ''_'' @ servName @ ''_'' @ methName @ ''_Handler''"

definition streamingLines :: "string list" where
  "streamingLines =
     [P [tab @ tab @ ''w.WriteHeader(501)''],
      P [tab @ tab @ ''w.Write([]byte('' @ bquote @
           ''Streaming functions over http are not supported'' @ bquote @ ''))''],
      P [tab @ tab @ ''return'']]"

definition unaryLines :: "string \<Rightarrow> string \<Rightarrow> string list" where
  "unaryLines inType methName =
     [P [tab @ ''in := '', inType, ''{}''],
      P [tab @ ''content, err := ioutil.ReadAll(r.Body)''],
      P [tab @ ''defer r.Body.Close()''],
      P [tab @ ''if err != nil {''],
      P [tab @ tab @ ''w.WriteHeader(408)''],
      P [tab @ tab @ ''w.Write([]byte(err.Error()))''],
      P [tab @ tab @ ''log.Println(err.Error())''],
      P [tab @ tab @ ''return''],
      P [tab @ ''}''],
      P [tab @ ''err = json.Unmarshal(content, &in)''],
      P [tab @ ''if err != nil {''],
      P [tab @ tab @ ''w.WriteHeader(400)''],
      P [tab @ tab @ ''w.Write([]byte(err.Error()))''],
      P [tab @ tab @ ''log.Println(err.Error())''],
      P [tab @ tab @ ''return''],
      P [tab @ ''}''],
      P [tab @ ''res,err := impl.handler.'', methName, ''(context.TODO(),&in)''],
      P [tab @ ''if err != nil {''],
      P [tab @ tab @ ''w.WriteHeader(500)''],
      P [tab @ tab @ ''w.Write([]byte(err.Error()))''],
      P [tab @ tab @ ''log.Println(err.Error())''],
      P [tab @ tab @ ''return''],
      P [tab @ ''}''],
      P [tab @ ''json.NewEncoder(w).Encode(res)'']]"

definition generateServerMethod ::
    "Generator \<Rightarrow> string \<Rightarrow> MethodDescriptorProto \<Rightarrow> string list \<times> string" where
  "generateServerMethod g servName method =
     (let methName = genCamelCase g (GetName method);
          hname = handlerName servName methName;
          inType = genTypeName g (GetInputType method);
          outType = genTypeName g (GetOutputType method);
          serverType = servName @ ''Server''
      in ([P [],
           P [''// _'', serverType, ''.'', methName, ''('', inType, '') '', outType],
           P [''func (impl* _'', serverType, '' )'', methName,
              ''(c web.C, w http.ResponseWriter, r *http.Request) {'']]
          @ (if GetServerStreaming method \<or> GetClientStreaming method
             then streamingLines
             else unaryLines inType methName)
          @ [P [''}''], P []],
          hname))"

section \<open>The service\<close>

text \<open>
  \<^verbatim>\<open>generateService\<close> (lines 137 to 183): the constructor of the router with one
  \<^verbatim>\<open>router.Handle\<close> line per method, the receiver type, then the handler of every method.
  Its parameters \<^verbatim>\<open>file\<close> and \<^verbatim>\<open>index\<close> are not read. The handler name that
  \<^verbatim>\<open>generateServerMethod\<close> returns is dropped by the second loop.
\<close>

definition generateService :: "Generator \<Rightarrow> ServiceDescriptorProto \<Rightarrow> panic + string list" where
  "generateService g service =
     (let origServName = GetServiceName service;
          servName = genCamelCase g origServName;
          serverType = servName @ ''Server''
      in case routeLines g servName (Method service) of
           Inl e \<Rightarrow> Inl e
         | Inr routes \<Rightarrow>
             Inr ([P [''// Server API for '', servName, '' service''],
                   P [],
                   P [],
                   P [''func New'', servName, ''Mux(h '', serverType, '', prefix string) *web.Mux {''],
                   P [tab @ ''t := _'', serverType, ''{}''],
                   P [tab @ ''t.handler = h''],
                   P [tab @ ''router := web.New()'']]
                  @ routes
                  @ [P [tab @ ''return router''],
                     P [''}''],
                     P [],
                     P [''type _'', serverType, '' struct {''],
                     P [tab @ ''handler '', serverType],
                     P [''}''],
                     P []]
                  @ concat (map (\<lambda>method. fst (generateServerMethod g servName method))
                              (Method service))))"

section \<open>The emitted code, as statements\<close>

text \<open>
  What the emitted lines do when the generated file runs is a property of the Go
  statements they spell. Each statement form the plugin emits is a constructor; \<open>render\<close>
  gives back the emitted line (or lines), so that the statements below are tied to the
  text above by a theorem, not by reading.
\<close>

datatype stmt =
    WriteHeader nat
  | WriteLit string
  | WriteErr
  | LogErr
  | Return
  | DeclIn string
  | ReadAll
  | DeferClose
  | IfErr "stmt list"
  | Unmarshal
  | CallHandler string
  | EncodeRes

definition digit :: "nat \<Rightarrow> char" where
  "digit n = ''0123456789'' ! (n mod 10)"

function decimal :: "nat \<Rightarrow> string" where
  "decimal n = (if n < 10 then [digit n] else decimal (n div 10) @ [digit (n mod 10)])"
  by pat_completeness auto
termination
  by (relation "measure id") auto

declare decimal.simps [simp del]

definition tabs :: "nat \<Rightarrow> string" where
  "tabs n = concat (replicate n tab)"

fun render :: "nat \<Rightarrow> stmt \<Rightarrow> string list" where
  "render n (WriteHeader code) = [tabs n @ ''w.WriteHeader('' @ decimal code @ '')'']"
| "render n (WriteLit t) = [tabs n @ ''w.Write([]byte('' @ bquote @ t @ bquote @ ''))'']"
| "render n WriteErr = [tabs n @ ''w.Write([]byte(err.Error()))'']"
| "render n LogErr = [tabs n @ ''log.Println(err.Error())'']"
| "render n Return = [tabs n @ ''return'']"
| "render n (DeclIn inType) = [tabs n @ ''in := '' @ inType @ ''{}'']"
| "render n ReadAll = [tabs n @ ''content, err := ioutil.ReadAll(r.Body)'']"
| "render n DeferClose = [tabs n @ ''defer r.Body.Close()'']"
| "render n (IfErr body) =
     [tabs n @ ''if err != nil {''] @ concat (map (render (Suc n)) body) @ [tabs n @ ''}'']"
| "render n Unmarshal = [tabs n @ ''err = json.Unmarshal(content, &in)'']"
| "render n (CallHandler methName) =
     [tabs n @ ''res,err := impl.handler.'' @ methName @ ''(context.TODO(),&in)'']"
| "render n EncodeRes = [tabs n @ ''json.NewEncoder(w).Encode(res)'']"

text \<open>
  The body of the emitted handler: the branch of \<^verbatim>\<open>generateServerMethod\<close> on the two
  streaming flags (line 221), statement by statement.
\<close>

definition failWith :: "nat \<Rightarrow> stmt" where
  "failWith code = IfErr [WriteHeader code, WriteErr, LogErr, Return]"

definition streamingBody :: "stmt list" where
  "streamingBody =
     [WriteHeader 501, WriteLit ''Streaming functions over http are not supported'', Return]"

definition unaryBody :: "string \<Rightarrow> string \<Rightarrow> stmt list" where
  "unaryBody inType methName =
     [DeclIn inType, ReadAll, DeferClose, failWith 408,
      Unmarshal, failWith 400,
      CallHandler methName, failWith 500,
      EncodeRes]"

definition handlerBody :: "Generator \<Rightarrow> MethodDescriptorProto \<Rightarrow> stmt list" where
  "handlerBody g method =
     (if GetServerStreaming method \<or> GetClientStreaming method
      then streamingBody
      else unaryBody (genTypeName g (GetInputType method)) (genCamelCase g (GetName method)))"

section \<open>Running an emitted handler\<close>

text \<open>
  A run of a handler is the sequence of calls it makes on its collaborators: the request
  body, the response writer, the log, the JSON package and the injected service.
  \<open>Encode\<close> is \<^verbatim>\<open>json.NewEncoder(w).Encode(res)\<close>, which writes onto the response.
\<close>

datatype ('i, 'o) event =
    BodyRead
  | BodyClose
  | Header nat
  | Write string
  | Log string
  | Decode string
  | Invoke string 'i
  | Encode 'o

text \<open>
  A Go \<^verbatim>\<open>error\<close> is \<open>None\<close> for \<^verbatim>\<open>nil\<close> and \<open>Some\<close> of the text of \<^verbatim>\<open>err.Error()\<close>
  otherwise. The collaborators of one request answer as the record says:
  \<^verbatim>\<open>ioutil.ReadAll(r.Body)\<close> returns \<open>bodyRead\<close>; \<^verbatim>\<open>json.Unmarshal(content, &in)\<close> maps the
  content and the value of \<^verbatim>\<open>in\<close> to the new value and an error; the service method
  named \<open>methName\<close> maps the input to its result and an error; \<open>zeroValue\<close> is the value
  of the composite literal \<^verbatim>\<open>T{}\<close>.
\<close>

type_synonym goerror = "string option"

record ('i, 'o) world =
  bodyRead :: "string \<times> goerror"
  jsonUnmarshal :: "string \<Rightarrow> 'i \<Rightarrow> 'i \<times> goerror"
  implHandler :: "string \<Rightarrow> 'i \<Rightarrow> 'o \<times> goerror"
  zeroValue :: "string \<Rightarrow> 'i"

text \<open>
  The local variables of one invocation, the calls deferred so far (the latest first)
  and the calls made so far. \<^verbatim>\<open>in\<close> and \<^verbatim>\<open>res\<close> are \<open>None\<close> until they are declared.
\<close>

record ('i, 'o) frame =
  inVar :: "'i option"
  contentVar :: string
  errVar :: goerror
  resVar :: "'o option"
  deferred :: "('i, 'o) event list"
  calls :: "('i, 'o) event list"

definition frame0 :: "('i, 'o) frame" where
  "frame0 = \<lparr> inVar = None, contentVar = [], errVar = None, resVar = None,
              deferred = [], calls = [] \<rparr>"

text \<open>
  How a statement ends: control goes on to the next statement, the function returns, or
  the run fails (\<^verbatim>\<open>err.Error()\<close> on a nil error panics; a variable read before its
  declaration does not compile).
\<close>

datatype ctl = Next | Returned | Failed

definition call :: "('i, 'o) event \<Rightarrow> ('i, 'o) frame \<Rightarrow> ('i, 'o) frame" where
  "call e s = s\<lparr> calls := calls s @ [e] \<rparr>"

fun exec :: "('i, 'o) world \<Rightarrow> stmt \<Rightarrow> ('i, 'o) frame \<Rightarrow> ('i, 'o) frame \<times> ctl"
and execs :: "('i, 'o) world \<Rightarrow> stmt list \<Rightarrow> ('i, 'o) frame \<Rightarrow> ('i, 'o) frame \<times> ctl" where
  "exec W (WriteHeader code) s = (call (Header code) s, Next)"
| "exec W (WriteLit t) s = (call (Write t) s, Next)"
| "exec W WriteErr s =
     (case errVar s of None \<Rightarrow> (s, Failed) | Some e \<Rightarrow> (call (Write e) s, Next))"
| "exec W LogErr s =
     (case errVar s of None \<Rightarrow> (s, Failed) | Some e \<Rightarrow> (call (Log e) s, Next))"
| "exec W Return s = (s, Returned)"
| "exec W (DeclIn inType) s = (s\<lparr> inVar := Some (zeroValue W inType) \<rparr>, Next)"
| "exec W ReadAll s =
     (call BodyRead (s\<lparr> contentVar := fst (bodyRead W), errVar := snd (bodyRead W) \<rparr>), Next)"
| "exec W DeferClose s = (s\<lparr> deferred := BodyClose # deferred s \<rparr>, Next)"
| "exec W (IfErr body) s = (if errVar s = None then (s, Next) else execs W body s)"
| "exec W Unmarshal s =
     (case inVar s of
        None \<Rightarrow> (s, Failed)
      | Some v \<Rightarrow>
          (call (Decode (contentVar s))
             (s\<lparr> inVar := Some (fst (jsonUnmarshal W (contentVar s) v)),
                 errVar := snd (jsonUnmarshal W (contentVar s) v) \<rparr>), Next))"
| "exec W (CallHandler methName) s =
     (case inVar s of
        None \<Rightarrow> (s, Failed)
      | Some v \<Rightarrow>
          (call (Invoke methName v)
             (s\<lparr> resVar := Some (fst (implHandler W methName v)),
                 errVar := snd (implHandler W methName v) \<rparr>), Next))"
| "exec W EncodeRes s =
     (case resVar s of None \<Rightarrow> (s, Failed) | Some r \<Rightarrow> (call (Encode r) s, Next))"
| "execs W [] s = (s, Next)"
| "execs W (c # cs) s =
     (case exec W c s of
        (s', Next) \<Rightarrow> execs W cs s'
      | (s', Returned) \<Rightarrow> (s', Returned)
      | (s', Failed) \<Rightarrow> (s', Failed))"

text \<open>
  One invocation of a handler: the body runs from the empty frame; when it leaves (by
  \<^verbatim>\<open>return\<close>, by reaching the closing brace, or by a panic) the deferred calls run, the
  latest first.
\<close>

definition invoke :: "('i, 'o) world \<Rightarrow> stmt list \<Rightarrow> ('i, 'o) event list \<times> ctl" where
  "invoke W body = (case execs W body frame0 of (s, k) \<Rightarrow> (calls s @ deferred s, k))"

definition trace :: "('i, 'o) world \<Rightarrow> stmt list \<Rightarrow> ('i, 'o) event list" where
  "trace W body = fst (invoke W body)"

section \<open>The emitted router constructor\<close>

text \<open>
  The statement a \<^verbatim>\<open>router.Handle\<close> line spells: the text between the double quotes of
  its string literal, and the method of \<^verbatim>\<open>t\<close> it binds. \<open>registration\<close> is the loop body
  of lines 154 to 168 once more, with the statement in place of its text.
\<close>

datatype registration = RouterHandle string string

fun renderRegistration :: "registration \<Rightarrow> string" where
  "renderRegistration (RouterHandle lit methName) =
     ''router.Handle(prefix+'' @ [dquote] @ lit @ [dquote] @ '', t.'' @ methName @ '')''"

definition registration ::
    "Generator \<Rightarrow> string \<Rightarrow> MethodDescriptorProto \<Rightarrow> panic + registration" where
  "registration g servName method =
     (let methName = genCamelCase g (GetName method)
      in case methodPath servName method of
           Inl e \<Rightarrow> Inl e
         | Inr path \<Rightarrow> Inr (RouterHandle (ToLower path) methName))"

fun registrations ::
    "Generator \<Rightarrow> string \<Rightarrow> MethodDescriptorProto list \<Rightarrow> panic + registration list" where
  "registrations g servName [] = Inr []"
| "registrations g servName (method # rest) =
     (case registration g servName method of
        Inl e \<Rightarrow> Inl e
      | Inr r \<Rightarrow>
          (case registrations g servName rest of
             Inl e \<Rightarrow> Inl e
           | Inr rs \<Rightarrow> Inr (r # rs)))"

text \<open>
  The router the emitted \<^verbatim>\<open>New<Service>Mux(h, prefix)\<close> returns: \<^verbatim>\<open>web.New()\<close> is the
  empty router, and \<^verbatim>\<open>router.Handle(pattern, handler)\<close> adds a binding after the ones
  already there. A binding is the pattern and the name of the bound method of \<^verbatim>\<open>t\<close>.
  The string literal stands for the text between its quotes (escape sequences are not
  read: the paths of the plugin are made of identifiers and of a part of a string split
  on the double quote).
\<close>

type_synonym mux = "(string \<times> string) list"

definition Handle :: "mux \<Rightarrow> string \<Rightarrow> string \<Rightarrow> mux" where
  "Handle router pattern handler = router @ [(pattern, handler)]"

fun register :: "string \<Rightarrow> mux \<Rightarrow> registration \<Rightarrow> mux" where
  "register prefix router (RouterHandle lit methName) = Handle router (prefix @ lit) methName"

definition NewMux :: "Generator \<Rightarrow> ServiceDescriptorProto \<Rightarrow> string \<Rightarrow> panic + mux" where
  "NewMux g service prefix =
     (case registrations g (genCamelCase g (GetServiceName service)) (Method service) of
        Inl e \<Rightarrow> Inl e
      | Inr rs \<Rightarrow> Inr (foldl (register prefix) [] rs))"

text \<open>
  The three nested tests of lines 159 to 162 on the options text \<open>m\<close>, as one condition.
\<close>

definition overridden :: "string \<Rightarrow> bool" where
  "overridden m =
     (m \<noteq> [] \<and> length (Split m dquote) = 3 \<and> Split m dquote ! 0 = ''10000:'')"

text \<open>
  The path of section 4.1 of the spec, in its words: the override path when the options
  text is recognised, the default path otherwise. \<open>methodPath\<close> is compared with it below.
\<close>

definition plannedPath :: "string \<Rightarrow> MethodDescriptorProto \<Rightarrow> string" where
  "plannedPath servName method =
     (if overridden (GetOptionsString method)
      then Split (GetOptionsString method) dquote ! 1
      else defaultPath servName method)"

section \<open>Example descriptors\<close>

text \<open>
  The service of the spec's scenarios: \<open>Echo\<close> with the unary method \<open>Say\<close>, the same
  method with the options text \<^verbatim>\<open>10000:"/custom/path"\<close>, and a server-streaming method.
\<close>

definition say :: MethodDescriptorProto where
  "say = \<lparr> GetName = ''Say'', GetInputType = ''EchoRequest'', GetOutputType = ''EchoReply'',
           GetServerStreaming = False, GetClientStreaming = False, GetOptionsString = [] \<rparr>"

definition sayCustom :: MethodDescriptorProto where
  "sayCustom = say \<lparr> GetOptionsString := ''10000:'' @ [dquote] @ ''/Custom/Path'' @ [dquote] \<rparr>"

definition stream :: MethodDescriptorProto where
  "stream = say \<lparr> GetName := ''Stream'', GetServerStreaming := True \<rparr>"

definition echo :: ServiceDescriptorProto where
  "echo = \<lparr> GetServiceName = ''Echo'', Method = [say, stream, sayCustom] \<rparr>"

definition sayLower :: MethodDescriptorProto where
  "sayLower = say \<lparr> GetName := ''say'' \<rparr>"

text \<open>
  A service whose name camel-casing changes, and two methods whose names differ and
  camel-case alike.
\<close>

definition echoService :: ServiceDescriptorProto where
  "echoService = \<lparr> GetServiceName = ''echo_service'', Method = [say] \<rparr>"

definition sayIt :: MethodDescriptorProto where
  "sayIt = say \<lparr> GetName := ''say_it'' \<rparr>"

definition sayItCamel :: MethodDescriptorProto where
  "sayItCamel = say \<lparr> GetName := ''SayIt'' \<rparr>"

text \<open>
  The collaborators of four requests, with strings for the input and output messages:
  a body that cannot be read; a readable body that decodes, with a service that returns
  its input; the same body with a decoder that fails; the same body with a service that
  fails.
\<close>

definition unreadable :: "(string, string) world" where
  "unreadable = \<lparr> bodyRead = ([], Some ''unexpected EOF''),
                  jsonUnmarshal = (\<lambda>content v. (content, None)),
                  implHandler = (\<lambda>methName v. (v, None)),
                  zeroValue = (\<lambda>inType. []) \<rparr>"

definition echoing :: "(string, string) world" where
  "echoing = unreadable \<lparr> bodyRead := (''hi'', None) \<rparr>"

definition malformed :: "(string, string) world" where
  "malformed = echoing \<lparr> jsonUnmarshal := (\<lambda>content v. (v, Some ''invalid character'')) \<rparr>"

definition failing :: "(string, string) world" where
  "failing = echoing \<lparr> implHandler := (\<lambda>methName v. ([], Some ''boom'')) \<rparr>"

section \<open>The code and the spec's path agree; the text is the rendered statements\<close>

text \<open>
  \<open>methodPath\<close> keeps Go's bounds checks and still never panics: it returns the path of
  the spec. The lines \<^verbatim>\<open>generateServerMethod\<close> prints are the rendering of
  \<open>handlerBody\<close>, and a \<^verbatim>\<open>router.Handle\<close> line is the rendering of its registration.
\<close>

lemma methodPath_planned: "methodPath servName method = Inr (plannedPath servName method)"
  by (simp add: methodPath_def plannedPath_def overridden_def index_def Let_def)

lemma routeLine_planned:
  "routeLine g servName method =
     Inr (renderRegistration
            (RouterHandle (ToLower (plannedPath servName method)) (genCamelCase g (GetName method))))"
  by (simp add: routeLine_def methodPath_planned P_def Let_def)

lemma registration_planned:
  "registration g servName method =
     Inr (RouterHandle (ToLower (plannedPath servName method)) (genCamelCase g (GetName method)))"
  by (simp add: registration_def methodPath_planned Let_def)

lemma routeLines_planned:
  "routeLines g servName ms =
     Inr (map (\<lambda>m. renderRegistration
                 (RouterHandle (ToLower (plannedPath servName m)) (genCamelCase g (GetName m)))) ms)"
  by (induction ms) (simp_all add: routeLine_planned)

lemma registrations_planned:
  "registrations g servName ms =
     Inr (map (\<lambda>m. RouterHandle (ToLower (plannedPath servName m)) (genCamelCase g (GetName m))) ms)"
  by (induction ms) (simp_all add: registration_planned)

lemma foldl_register:
  "foldl (register prefix) router rs =
     router @ map (\<lambda>r. case r of RouterHandle lit methName \<Rightarrow> (prefix @ lit, methName)) rs"
proof (induction rs arbitrary: router)
  case Nil
  show ?case by simp
next
  case (Cons r rs)
  show ?case by (cases r) (simp add: Cons.IH Handle_def)
qed

lemma NewMux_planned:
  "NewMux g service prefix =
     Inr (map (\<lambda>m. (prefix @ ToLower (plannedPath (genCamelCase g (GetServiceName service)) m),
                     genCamelCase g (GetName m)))
            (Method service))"
  by (simp add: NewMux_def registrations_planned foldl_register comp_def)

lemma tabs_simps: "tabs 1 = tab" "tabs 2 = tab @ tab" "tabs (Suc (Suc 0)) = tab @ tab" "tabs (Suc 0) = tab"
  by (simp_all add: tabs_def numeral_2_eq_2)

lemma decimal_codes:
  "decimal 501 = ''501''" "decimal 408 = ''408''" "decimal 400 = ''400''" "decimal 500 = ''500''"
  by (simp_all add: decimal.simps digit_def)

lemma render_streamingBody: "concat (map (render 2) streamingBody) = streamingLines"
  by (simp add: streamingBody_def streamingLines_def P_def tabs_simps decimal_codes)

lemma render_unaryBody: "concat (map (render 1) (unaryBody inType methName)) = unaryLines inType methName"
  by (simp add: unaryBody_def unaryLines_def failWith_def P_def tabs_simps decimal_codes)

lemma generateServerMethod_rendered:
  "fst (generateServerMethod g servName method) =
     [[],
      ''// _'' @ servName @ ''Server.'' @ genCamelCase g (GetName method) @ ''('' @
        genTypeName g (GetInputType method) @ '') '' @ genTypeName g (GetOutputType method),
      ''func (impl* _'' @ servName @ ''Server )'' @ genCamelCase g (GetName method) @
        ''(c web.C, w http.ResponseWriter, r *http.Request) {'']
     @ concat (map (render (if GetServerStreaming method \<or> GetClientStreaming method then 2 else 1))
                 (handlerBody g method))
     @ [''}'', []]"
  using render_unaryBody [of "genTypeName g (GetInputType method)" "genCamelCase g (GetName method)"]
  by (simp add: generateServerMethod_def handlerBody_def render_streamingBody
        P_def Let_def)

lemma length_ToLower: "length (ToLower s) = length s"
  by (simp add: ToLower_def)

lemma generateService_planned:
  "generateService g service =
     Inr ([''// Server API for '' @ genCamelCase g (GetServiceName service) @ '' service'',
           [],
           [],
           ''func New'' @ genCamelCase g (GetServiceName service) @ ''Mux(h '' @
             genCamelCase g (GetServiceName service) @ ''Server, prefix string) *web.Mux {'',
           tab @ ''t := _'' @ genCamelCase g (GetServiceName service) @ ''Server{}'',
           tab @ ''t.handler = h'',
           tab @ ''router := web.New()'']
          @ map (\<lambda>m. renderRegistration
                   (RouterHandle (ToLower (plannedPath (genCamelCase g (GetServiceName service)) m))
                      (genCamelCase g (GetName m))))
              (Method service)
          @ [tab @ ''return router'',
             ''}'',
             [],
             ''type _'' @ genCamelCase g (GetServiceName service) @ ''Server struct {'',
             tab @ ''handler '' @ genCamelCase g (GetServiceName service) @ ''Server'',
             ''}'',
             []]
          @ concat (map (\<lambda>m. fst (generateServerMethod g (genCamelCase g (GetServiceName service)) m))
                      (Method service)))"
  by (simp add: generateService_def routeLines_planned P_def Let_def)

lemma generateService_route_line:
  assumes "i < length (Method service)"
  shows "generateService g service = Inr lines \<Longrightarrow>
         lines ! (7 + i) =
           renderRegistration
             (RouterHandle
                (ToLower (plannedPath (genCamelCase g (GetServiceName service)) (Method service ! i)))
                (genCamelCase g (GetName (Method service ! i))))"
  using assms
  by (auto simp add: generateService_planned nth_append)

lemma protocGen_names:
  "genCamelCase protocGen ''Echo'' = ''Echo''"
  "genCamelCase protocGen ''Say'' = ''Say''"
  "genCamelCase protocGen ''Stream'' = ''Stream''"
  "genCamelCase protocGen ''echo_service'' = ''EchoService''"
  "genCamelCase protocGen ''say_it'' = ''SayIt''"
  "genCamelCase protocGen ''SayIt'' = ''SayIt''"
  by (simp_all add: protocGen_def CamelCase_def toUpperChar_def isASCIILower_def isASCIIDigit_def)

lemma generateServerMethod_unary_text:
  "\<not> GetServerStreaming method \<Longrightarrow> \<not> GetClientStreaming method \<Longrightarrow>
   fst (generateServerMethod g servName method) =
     [[],
      ''// _'' @ servName @ ''Server.'' @ genCamelCase g (GetName method) @ ''('' @
        genTypeName g (GetInputType method) @ '') '' @ genTypeName g (GetOutputType method),
      ''func (impl* _'' @ servName @ ''Server )'' @ genCamelCase g (GetName method) @
        ''(c web.C, w http.ResponseWriter, r *http.Request) {'',
      tab @ ''in := '' @ genTypeName g (GetInputType method) @ ''{}'',
      tab @ ''content, err := ioutil.ReadAll(r.Body)'',
      tab @ ''defer r.Body.Close()'',
      tab @ ''if err != nil {'',
      tab @ tab @ ''w.WriteHeader(408)'',
      tab @ tab @ ''w.Write([]byte(err.Error()))'',
      tab @ tab @ ''log.Println(err.Error())'',
      tab @ tab @ ''return'',
      tab @ ''}'',
      tab @ ''err = json.Unmarshal(content, &in)'',
      tab @ ''if err != nil {'',
      tab @ tab @ ''w.WriteHeader(400)'',
      tab @ tab @ ''w.Write([]byte(err.Error()))'',
      tab @ tab @ ''log.Println(err.Error())'',
      tab @ tab @ ''return'',
      tab @ ''}'',
      tab @ ''res,err := impl.handler.'' @ genCamelCase g (GetName method) @ ''(context.TODO(),&in)'',
      tab @ ''if err != nil {'',
      tab @ tab @ ''w.WriteHeader(500)'',
      tab @ tab @ ''w.Write([]byte(err.Error()))'',
      tab @ tab @ ''log.Println(err.Error())'',
      tab @ tab @ ''return'',
      tab @ ''}'',
      tab @ ''json.NewEncoder(w).Encode(res)'',
      ''}'',
      []]"
  by (simp add: generateServerMethod_def unaryLines_def P_def Let_def)

lemma generateServerMethod_streaming_text:
  "GetServerStreaming method \<or> GetClientStreaming method \<Longrightarrow>
   fst (generateServerMethod g servName method) =
     [[],
      ''// _'' @ servName @ ''Server.'' @ genCamelCase g (GetName method) @ ''('' @
        genTypeName g (GetInputType method) @ '') '' @ genTypeName g (GetOutputType method),
      ''func (impl* _'' @ servName @ ''Server )'' @ genCamelCase g (GetName method) @
        ''(c web.C, w http.ResponseWriter, r *http.Request) {'',
      tab @ tab @ ''w.WriteHeader(501)'',
      tab @ tab @ ''w.Write([]byte('' @ bquote @
        ''Streaming functions over http are not supported'' @ bquote @ ''))'',
      tab @ tab @ ''return'',
      ''}'',
      []]"
  by (simp add: generateServerMethod_def streamingLines_def P_def Let_def)

lemma generateServerMethod_unary_rendered:
  "\<not> GetServerStreaming method \<Longrightarrow> \<not> GetClientStreaming method \<Longrightarrow>
   drop 3 (fst (generateServerMethod g servName method)) =
     concat (map (render 1) (handlerBody g method)) @ [''}'', []]"
  by (simp add: generateServerMethod_rendered)

lemma generateServerMethod_streaming_rendered:
  "GetServerStreaming method \<or> GetClientStreaming method \<Longrightarrow>
   drop 3 (fst (generateServerMethod g servName method)) =
     concat (map (render 2) (handlerBody g method)) @ [''}'', []]"
  by (simp add: generateServerMethod_rendered)

section \<open>Runs of the two handler bodies\<close>

lemma invoke_streamingBody:
  "invoke W streamingBody =
     ([Header 501, Write ''Streaming functions over http are not supported''], Returned)"
  by (simp add: invoke_def streamingBody_def frame0_def call_def)

lemma invoke_unaryBody:
  "invoke W (unaryBody inType methName) =
     (case snd (bodyRead W) of
        Some e \<Rightarrow> ([BodyRead, Header 408, Write e, Log e, BodyClose], Returned)
      | None \<Rightarrow>
          (case snd (jsonUnmarshal W (fst (bodyRead W)) (zeroValue W inType)) of
             Some e \<Rightarrow>
               ([BodyRead, Decode (fst (bodyRead W)), Header 400, Write e, Log e, BodyClose],
                Returned)
           | None \<Rightarrow>
               (case snd (implHandler W methName
                            (fst (jsonUnmarshal W (fst (bodyRead W)) (zeroValue W inType)))) of
                  Some e \<Rightarrow>
                    ([BodyRead, Decode (fst (bodyRead W)),
                      Invoke methName (fst (jsonUnmarshal W (fst (bodyRead W)) (zeroValue W inType))),
                      Header 500, Write e, Log e, BodyClose], Returned)
                | None \<Rightarrow>
                    ([BodyRead, Decode (fst (bodyRead W)),
                      Invoke methName (fst (jsonUnmarshal W (fst (bodyRead W)) (zeroValue W inType))),
                      Encode (fst (implHandler W methName
                            (fst (jsonUnmarshal W (fst (bodyRead W)) (zeroValue W inType))))),
                      BodyClose], Next))))"
  by (simp add: invoke_def unaryBody_def failWith_def frame0_def call_def split: option.splits)

lemma unary_handlerBody:
  "\<not> GetServerStreaming method \<Longrightarrow> \<not> GetClientStreaming method \<Longrightarrow>
   handlerBody g method =
     unaryBody (genTypeName g (GetInputType method)) (genCamelCase g (GetName method))"
  by (simp add: handlerBody_def)

lemma streaming_handlerBody:
  "GetServerStreaming method \<or> GetClientStreaming method \<Longrightarrow>
   handlerBody g method = streamingBody"
  by (simp add: handlerBody_def)

section \<open>The route planner\<close>

text \<open>
  Claim C1. The path the loop chooses for a method is \<^verbatim>\<open>parts[1]\<close> when the options text
  is not empty, splits on the double quote into exactly three parts and its first part is
  \<^verbatim>\<open>10000:\<close>; for every other options text (empty, malformed, another sentinel) it is
  the default path \<^verbatim>\<open>strings.ToLower(servName) + "/" + method.GetName()\<close>. The choice
  never panics (the result is always \<open>Inr\<close>), and neither does the generation of a
  service.
\<close>

theorem override_or_default_path:
  "methodPath servName method =
     Inr (if GetOptionsString method \<noteq> []
             \<and> length (Split (GetOptionsString method) dquote) = 3
             \<and> Split (GetOptionsString method) dquote ! 0 = ''10000:''
          then Split (GetOptionsString method) dquote ! 1
          else ToLower servName @ ''/'' @ GetName method)
   \<and> (\<exists>lines. generateService g service = Inr lines)"
  by (simp add: methodPath_planned plannedPath_def overridden_def defaultPath_def
        generateService_def routeLines_planned Let_def)

theorem override_or_default_path_witness:
  "methodPath ''Echo'' sayCustom = Inr ''/Custom/Path''
   \<and> methodPath ''Echo'' say = Inr ''echo/Say''
   \<and> methodPath ''Echo'' (say \<lparr> GetOptionsString := ''10001:'' @ [dquote] @ ''/p'' @ [dquote] \<rparr>)
       = Inr ''echo/Say''
   \<and> methodPath ''Echo'' (say \<lparr> GetOptionsString := ''10000:'' @ [dquote] @ ''/p'' \<rparr>)
       = Inr ''echo/Say''
   \<and> methodPath ''Echo'' (say \<lparr> GetOptionsString := ''<nil>'' \<rparr>) = Inr ''echo/Say''"
  using override_or_default_path [of "''Echo''" sayCustom protocGen echo]
        override_or_default_path [of "''Echo''" say protocGen echo]
        override_or_default_path
          [of "''Echo''" "say \<lparr> GetOptionsString := ''10001:'' @ [dquote] @ ''/p'' @ [dquote] \<rparr>"
              protocGen echo]
        override_or_default_path
          [of "''Echo''" "say \<lparr> GetOptionsString := ''10000:'' @ [dquote] @ ''/p'' \<rparr>"
              protocGen echo]
        override_or_default_path
          [of "''Echo''" "say \<lparr> GetOptionsString := ''<nil>'' \<rparr>" protocGen echo]
  by (simp add: say_def sayCustom_def dquote_def Split_def ToLower_def toLowerChar_def isASCIIUpper_def)

text \<open>
  Claim C2, as amended. The service name the loop lower-cases is the generator's
  \<^verbatim>\<open>servName\<close>, that is \<^verbatim>\<open>generator.CamelCase\<close> of the descriptor's name (lines 140 to
  142): with no recognised override the chosen path is the lower-cased camel-cased
  service name, a slash and the method name. Whatever path is chosen, default or
  override, the \<^verbatim>\<open>router.Handle\<close> line that \<^verbatim>\<open>generateService\<close> prints for the method
  carries it lower-cased. The witness is the spec's scenario: service \<open>Echo\<close>, method
  \<open>Say\<close>, no override, route \<^verbatim>\<open>echo/say\<close>.
\<close>

theorem default_path_of_camel_cased_service:
  "(\<not> overridden (GetOptionsString method) \<longrightarrow>
      methodPath (genCamelCase g (GetServiceName service)) method =
        Inr (ToLower (genCamelCase g (GetServiceName service)) @ ''/'' @ GetName method))
   \<and> (\<forall>i path lines.
        i < length (Method service)
        \<and> methodPath (genCamelCase g (GetServiceName service)) (Method service ! i) = Inr path
        \<and> generateService g service = Inr lines \<longrightarrow>
        lines ! (7 + i) =
          ''router.Handle(prefix+'' @ [dquote] @ ToLower path @ [dquote] @ '', t.'' @
          genCamelCase g (GetName (Method service ! i)) @ '')'')"
proof (intro conjI allI impI)
  assume "\<not> overridden (GetOptionsString method)"
  then show "methodPath (genCamelCase g (GetServiceName service)) method =
        Inr (ToLower (genCamelCase g (GetServiceName service)) @ ''/'' @ GetName method)"
    by (simp add: methodPath_planned plannedPath_def defaultPath_def)
next
  fix i path lines
  assume a: "i < length (Method service)
        \<and> methodPath (genCamelCase g (GetServiceName service)) (Method service ! i) = Inr path
        \<and> generateService g service = Inr lines"
  then have p: "plannedPath (genCamelCase g (GetServiceName service)) (Method service ! i) = path"
    by (simp add: methodPath_planned)
  from a have "lines ! (7 + i) =
           renderRegistration
             (RouterHandle
                (ToLower (plannedPath (genCamelCase g (GetServiceName service)) (Method service ! i)))
                (genCamelCase g (GetName (Method service ! i))))"
    using generateService_route_line [of i service g lines] by blast
  then show "lines ! (7 + i) =
          ''router.Handle(prefix+'' @ [dquote] @ ToLower path @ [dquote] @ '', t.'' @
          genCamelCase g (GetName (Method service ! i)) @ '')''"
    by (simp add: p)
qed

theorem default_path_of_camel_cased_service_witness:
  "\<not> overridden (GetOptionsString say)
   \<and> methodPath (genCamelCase protocGen (GetServiceName echo)) say = Inr ''echo/Say''
   \<and> (\<exists>lines. generateService protocGen echo = Inr lines
        \<and> lines ! 7 = ''router.Handle(prefix+'' @ [dquote] @ ''echo/say'' @ [dquote] @ '', t.Say)'')"
proof -
  have h: "\<not> overridden (GetOptionsString say)"
    by (simp add: overridden_def say_def)
  have e1: "ToLower (genCamelCase protocGen (GetServiceName echo)) @ ''/'' @ GetName say = ''echo/Say''"
    by (simp add: echo_def say_def protocGen_names ToLower_def toLowerChar_def isASCIIUpper_def)
  have e2: "ToLower ''echo/Say'' = ''echo/say''"
    by (simp add: ToLower_def toLowerChar_def isASCIIUpper_def)
  have m: "Method echo ! 0 = say" "0 < length (Method echo)"
          "genCamelCase protocGen (GetName say) = ''Say''"
    by (simp_all add: echo_def say_def protocGen_names)
  note t = default_path_of_camel_cased_service [of say protocGen echo]
  from t h have "methodPath (genCamelCase protocGen (GetServiceName echo)) say =
      Inr (ToLower (genCamelCase protocGen (GetServiceName echo)) @ ''/'' @ GetName say)"
    by blast
  then have p: "methodPath (genCamelCase protocGen (GetServiceName echo)) say = Inr ''echo/Say''"
    by (simp only: e1)
  obtain lines where g: "generateService protocGen echo = Inr lines"
    by (auto simp add: generateService_planned)
  from t have "0 < length (Method echo)
        \<and> methodPath (genCamelCase protocGen (GetServiceName echo)) (Method echo ! 0) = Inr ''echo/Say''
        \<and> generateService protocGen echo = Inr lines \<longrightarrow>
        lines ! (7 + 0) =
          ''router.Handle(prefix+'' @ [dquote] @ ToLower ''echo/Say'' @ [dquote] @ '', t.'' @
          genCamelCase protocGen (GetName (Method echo ! 0)) @ '')''"
    by blast
  with p g m have "lines ! 7 =
      ''router.Handle(prefix+'' @ [dquote] @ ''echo/say'' @ [dquote] @ '', t.Say)''"
    by (simp add: e2)
  with h p g show ?thesis by blast
qed

text \<open>
  The claim as stated lower-cases the service name itself. For the service
  \<^verbatim>\<open>echo_service\<close> and the method \<open>Say\<close> that would be \<^verbatim>\<open>echo_service/Say\<close>; the code
  chooses \<^verbatim>\<open>echoservice/Say\<close> and registers \<^verbatim>\<open>echoservice/say\<close>.
\<close>

theorem default_path_not_of_raw_service_name_counterexample:
  "\<not> overridden (GetOptionsString say)
   \<and> ToLower (GetServiceName echoService) @ ''/'' @ GetName say = ''echo_service/Say''
   \<and> methodPath (genCamelCase protocGen (GetServiceName echoService)) say = Inr ''echoservice/Say''
   \<and> NewMux protocGen echoService [] = Inr [(''echoservice/say'', ''Say'')]"
  by (simp add: NewMux_planned methodPath_planned plannedPath_def overridden_def defaultPath_def
        echoService_def say_def protocGen_names ToLower_def toLowerChar_def isASCIIUpper_def)

text \<open>
  Claim C6. For every service the router gets exactly one binding per method, in the
  order of the descriptor's methods: the bindings, the \<^verbatim>\<open>router.Handle\<close> lines and the
  emitted handlers are each the image of the method list under a map, so nothing is
  reordered, dropped, merged or rejected, whatever the flags and the path of a method.
  The witness has a streaming method between two unary ones, and a service whose two
  methods get the same path.
\<close>

theorem one_binding_per_method_in_order:
  "NewMux g service prefix =
     Inr (map (\<lambda>m. (prefix @ ToLower (plannedPath (genCamelCase g (GetServiceName service)) m),
                     genCamelCase g (GetName m)))
            (Method service))
   \<and> routeLines g (genCamelCase g (GetServiceName service)) (Method service) =
     Inr (map (\<lambda>m. renderRegistration
                 (RouterHandle (ToLower (plannedPath (genCamelCase g (GetServiceName service)) m))
                    (genCamelCase g (GetName m))))
            (Method service))
   \<and> (\<exists>head middle.
        generateService g service =
          Inr (head
               @ map (\<lambda>m. renderRegistration
                        (RouterHandle
                           (ToLower (plannedPath (genCamelCase g (GetServiceName service)) m))
                           (genCamelCase g (GetName m))))
                   (Method service)
               @ middle
               @ concat (map (\<lambda>m. fst (generateServerMethod g
                                          (genCamelCase g (GetServiceName service)) m))
                           (Method service))))"
  apply (intro conjI)
    apply (rule NewMux_planned)
   apply (rule routeLines_planned)
  apply (subst generateService_planned)
  apply blast
  done

theorem one_binding_per_method_in_order_witness:
  "NewMux protocGen echo ''/'' =
     Inr [(''/echo/say'', ''Say''), (''/echo/stream'', ''Stream''), (''//custom/path'', ''Say'')]
   \<and> NewMux protocGen (echo \<lparr> Method := [say, say] \<rparr>) [] =
     Inr [(''echo/say'', ''Say''), (''echo/say'', ''Say'')]"
  using one_binding_per_method_in_order [of protocGen echo "''/''"]
        one_binding_per_method_in_order [of protocGen "echo \<lparr> Method := [say, say] \<rparr>" "[]"]
  by (simp add: echo_def say_def stream_def sayCustom_def protocGen_def plannedPath_def
        overridden_def defaultPath_def Split_def dquote_def CamelCase_def ToLower_def
        toLowerChar_def toUpperChar_def isASCIIUpper_def isASCIILower_def isASCIIDigit_def)



text \<open>
  Claim C7, as amended. The handler name \<^verbatim>\<open>generateServerMethod\<close> returns is an
  underscore, the service name, an underscore, the camel-cased method name and
  \<^verbatim>\<open>_Handler\<close>, that is \<^verbatim>\<open>_<Service>_<Method>_Handler\<close> with no \<^verbatim>\<open>Server\<close> in it; it
  depends on the two names only, and within a service two methods whose camel-cased
  names differ get different handler names.
\<close>

theorem handler_name_format:
  "snd (generateServerMethod g servName method) =
     ''_'' @ servName @ ''_'' @ genCamelCase g (GetName method) @ ''_Handler''
   \<and> (genCamelCase g (GetName method) \<noteq> genCamelCase g (GetName method') \<longrightarrow>
        snd (generateServerMethod g servName method) \<noteq> snd (generateServerMethod g servName method'))"
  by (simp add: generateServerMethod_def handlerName_def Let_def)

theorem handler_name_format_witness:
  "genCamelCase protocGen (GetName say) \<noteq> genCamelCase protocGen (GetName stream)
   \<and> snd (generateServerMethod protocGen (genCamelCase protocGen (GetServiceName echo)) say) =
     ''_Echo_Say_Handler''
   \<and> snd (generateServerMethod protocGen (genCamelCase protocGen (GetServiceName echo)) say) \<noteq>
     snd (generateServerMethod protocGen (genCamelCase protocGen (GetServiceName echo)) stream)"
proof -
  have d: "genCamelCase protocGen (GetName say) \<noteq> genCamelCase protocGen (GetName stream)"
    by (simp add: say_def stream_def protocGen_names)
  note t = handler_name_format
             [of protocGen "genCamelCase protocGen (GetServiceName echo)" say stream]
  from t d have "snd (generateServerMethod protocGen (genCamelCase protocGen (GetServiceName echo)) say) \<noteq>
     snd (generateServerMethod protocGen (genCamelCase protocGen (GetServiceName echo)) stream)"
    by blast
  moreover from t have
    "snd (generateServerMethod protocGen (genCamelCase protocGen (GetServiceName echo)) say) =
     ''_Echo_Say_Handler''"
    by (simp add: echo_def say_def protocGen_names)
  ultimately show ?thesis using d by blast
qed

text \<open>
  The claim as stated gives the name the form \<^verbatim>\<open>_<Service>Server_<Method>_Handler\<close> and
  a handler of its own to every method. For service \<open>Echo\<close> and method \<open>Say\<close> the code
  returns \<^verbatim>\<open>_Echo_Say_Handler\<close>, not \<^verbatim>\<open>_EchoServer_Say_Handler\<close>; and the two methods
  \<^verbatim>\<open>say_it\<close> and \<^verbatim>\<open>SayIt\<close> of one service get the same handler name.
\<close>

theorem handler_name_has_no_Server_counterexample:
  "snd (generateServerMethod protocGen (genCamelCase protocGen (GetServiceName echo)) say) =
     ''_Echo_Say_Handler''
   \<and> snd (generateServerMethod protocGen (genCamelCase protocGen (GetServiceName echo)) say) \<noteq>
     ''_EchoServer_Say_Handler''
   \<and> GetName sayIt \<noteq> GetName sayItCamel
   \<and> snd (generateServerMethod protocGen (genCamelCase protocGen (GetServiceName echo)) sayIt) =
     snd (generateServerMethod protocGen (genCamelCase protocGen (GetServiceName echo)) sayItCamel)"
  by (simp add: generateServerMethod_def handlerName_def Let_def echo_def say_def sayIt_def
        sayItCamel_def protocGen_names)

text \<open>
  Claim C8, as amended. The method-name segment of the default path (what follows the
  lower-cased service name and the slash) is the descriptor's method name, byte for byte.
  The emitted handler is the method of \<^verbatim>\<open>_<Service>Server\<close> named by the camel-cased
  method name, so the segment is the handler's identifier exactly when camel-casing
  leaves the method name as it is.
\<close>

theorem path_segment_verbatim_handler_camel_cased:
  "drop (Suc (length servName)) (defaultPath servName method) = GetName method
   \<and> fst (generateServerMethod g servName method) ! 2 =
       ''func (impl* _'' @ servName @ ''Server )'' @ genCamelCase g (GetName method) @
       ''(c web.C, w http.ResponseWriter, r *http.Request) {''
   \<and> (drop (Suc (length servName)) (defaultPath servName method) = genCamelCase g (GetName method)
        \<longleftrightarrow> genCamelCase g (GetName method) = GetName method)"
  by (auto simp add: defaultPath_def length_ToLower generateServerMethod_rendered)

theorem path_segment_verbatim_handler_camel_cased_witness:
  "drop (Suc (length ''Echo'')) (defaultPath ''Echo'' say) = ''Say''
   \<and> fst (generateServerMethod protocGen ''Echo'' say) ! 2 =
       ''func (impl* _EchoServer )Say(c web.C, w http.ResponseWriter, r *http.Request) {''"
  using path_segment_verbatim_handler_camel_cased [of "''Echo''" say protocGen]
  by (simp add: say_def protocGen_def CamelCase_def toUpperChar_def isASCIILower_def
        isASCIIDigit_def)

theorem path_segment_differs_from_handler_counterexample:
  "drop (Suc (length ''Echo'')) (defaultPath ''Echo'' sayLower) = ''say''
   \<and> fst (generateServerMethod protocGen ''Echo'' sayLower) ! 2 =
       ''func (impl* _EchoServer )Say(c web.C, w http.ResponseWriter, r *http.Request) {''
   \<and> drop (Suc (length ''Echo'')) (defaultPath ''Echo'' sayLower) \<noteq> genCamelCase protocGen (GetName sayLower)"
  by (simp add: defaultPath_def length_ToLower generateServerMethod_rendered sayLower_def say_def
        protocGen_def CamelCase_def toUpperChar_def isASCIILower_def isASCIIDigit_def)

section \<open>The emitted handlers\<close>

text \<open>
  Claim C3. For every unary method (both streaming flags false) \<^verbatim>\<open>generateServerMethod\<close>
  prints exactly the lines below, which are the rendering of \<open>handlerBody\<close>, and the
  handler they spell makes exactly these calls. When the body cannot be read: status
  408, the error text written and logged, nothing decoded, the service not invoked. When
  the body does not decode: status 400, the error text written and logged, the service
  not invoked. When the service returns an error: status 500, the error text written and
  logged. Otherwise the result is encoded onto the response and no status code is set.
\<close>

theorem unary_handler_status_taxonomy:
  assumes "\<not> GetServerStreaming method" and "\<not> GetClientStreaming method"
  shows
    "fst (generateServerMethod g servName method) =
         [[],
          ''// _'' @ servName @ ''Server.'' @ genCamelCase g (GetName method) @ ''('' @
            genTypeName g (GetInputType method) @ '') '' @ genTypeName g (GetOutputType method),
          ''func (impl* _'' @ servName @ ''Server )'' @ genCamelCase g (GetName method) @
            ''(c web.C, w http.ResponseWriter, r *http.Request) {'',
          tab @ ''in := '' @ genTypeName g (GetInputType method) @ ''{}'',
          tab @ ''content, err := ioutil.ReadAll(r.Body)'',
          tab @ ''defer r.Body.Close()'',
          tab @ ''if err != nil {'',
          tab @ tab @ ''w.WriteHeader(408)'',
          tab @ tab @ ''w.Write([]byte(err.Error()))'',
          tab @ tab @ ''log.Println(err.Error())'',
          tab @ tab @ ''return'',
          tab @ ''}'',
          tab @ ''err = json.Unmarshal(content, &in)'',
          tab @ ''if err != nil {'',
          tab @ tab @ ''w.WriteHeader(400)'',
          tab @ tab @ ''w.Write([]byte(err.Error()))'',
          tab @ tab @ ''log.Println(err.Error())'',
          tab @ tab @ ''return'',
          tab @ ''}'',
          tab @ ''res,err := impl.handler.'' @ genCamelCase g (GetName method) @ ''(context.TODO(),&in)'',
          tab @ ''if err != nil {'',
          tab @ tab @ ''w.WriteHeader(500)'',
          tab @ tab @ ''w.Write([]byte(err.Error()))'',
          tab @ tab @ ''log.Println(err.Error())'',
          tab @ tab @ ''return'',
          tab @ ''}'',
          tab @ ''json.NewEncoder(w).Encode(res)'',
          ''}'',
          []]
     \<and> drop 3 (fst (generateServerMethod g servName method)) =
         concat (map (render 1) (handlerBody g method)) @ [''}'', []]
     \<and> (\<forall>content e.
        bodyRead W = (content, Some e) \<longrightarrow>
        trace W (handlerBody g method) = [BodyRead, Header 408, Write e, Log e, BodyClose])
     \<and> (\<forall>content v e.
        bodyRead W = (content, None)
        \<and> jsonUnmarshal W content (zeroValue W (genTypeName g (GetInputType method))) = (v, Some e) \<longrightarrow>
        trace W (handlerBody g method) =
          [BodyRead, Decode content, Header 400, Write e, Log e, BodyClose])
     \<and> (\<forall>content v res e.
        bodyRead W = (content, None)
        \<and> jsonUnmarshal W content (zeroValue W (genTypeName g (GetInputType method))) = (v, None)
        \<and> implHandler W (genCamelCase g (GetName method)) v = (res, Some e) \<longrightarrow>
        trace W (handlerBody g method) =
          [BodyRead, Decode content, Invoke (genCamelCase g (GetName method)) v,
           Header 500, Write e, Log e, BodyClose])
     \<and> (\<forall>content v res.
        bodyRead W = (content, None)
        \<and> jsonUnmarshal W content (zeroValue W (genTypeName g (GetInputType method))) = (v, None)
        \<and> implHandler W (genCamelCase g (GetName method)) v = (res, None) \<longrightarrow>
        trace W (handlerBody g method) =
          [BodyRead, Decode content, Invoke (genCamelCase g (GetName method)) v,
           Encode res, BodyClose])"
proof (intro conjI)
  show "fst (generateServerMethod g servName method) =
       [[],
        ''// _'' @ servName @ ''Server.'' @ genCamelCase g (GetName method) @ ''('' @
          genTypeName g (GetInputType method) @ '') '' @ genTypeName g (GetOutputType method),
        ''func (impl* _'' @ servName @ ''Server )'' @ genCamelCase g (GetName method) @
          ''(c web.C, w http.ResponseWriter, r *http.Request) {'',
        tab @ ''in := '' @ genTypeName g (GetInputType method) @ ''{}'',
        tab @ ''content, err := ioutil.ReadAll(r.Body)'',
        tab @ ''defer r.Body.Close()'',
        tab @ ''if err != nil {'',
        tab @ tab @ ''w.WriteHeader(408)'',
        tab @ tab @ ''w.Write([]byte(err.Error()))'',
        tab @ tab @ ''log.Println(err.Error())'',
        tab @ tab @ ''return'',
        tab @ ''}'',
        tab @ ''err = json.Unmarshal(content, &in)'',
        tab @ ''if err != nil {'',
        tab @ tab @ ''w.WriteHeader(400)'',
        tab @ tab @ ''w.Write([]byte(err.Error()))'',
        tab @ tab @ ''log.Println(err.Error())'',
        tab @ tab @ ''return'',
        tab @ ''}'',
        tab @ ''res,err := impl.handler.'' @ genCamelCase g (GetName method) @ ''(context.TODO(),&in)'',
        tab @ ''if err != nil {'',
        tab @ tab @ ''w.WriteHeader(500)'',
        tab @ tab @ ''w.Write([]byte(err.Error()))'',
        tab @ tab @ ''log.Println(err.Error())'',
        tab @ tab @ ''return'',
        tab @ ''}'',
        tab @ ''json.NewEncoder(w).Encode(res)'',
        ''}'',
        []]"
    by (rule generateServerMethod_unary_text [OF assms])
  show "drop 3 (fst (generateServerMethod g servName method)) =
         concat (map (render 1) (handlerBody g method)) @ [''}'', []]"
    by (rule generateServerMethod_unary_rendered [OF assms])
qed (insert assms, simp_all add: unary_handlerBody trace_def invoke_unaryBody)

theorem unary_handler_status_taxonomy_witness:
  "trace unreadable (handlerBody protocGen say) =
     [BodyRead, Header 408, Write ''unexpected EOF'', Log ''unexpected EOF'', BodyClose]
   \<and> trace malformed (handlerBody protocGen say) =
     [BodyRead, Decode ''hi'', Header 400, Write ''invalid character'',
      Log ''invalid character'', BodyClose]
   \<and> trace failing (handlerBody protocGen say) =
     [BodyRead, Decode ''hi'', Invoke (genCamelCase protocGen (GetName say)) ''hi'',
      Header 500, Write ''boom'', Log ''boom'', BodyClose]
   \<and> trace echoing (handlerBody protocGen say) =
     [BodyRead, Decode ''hi'', Invoke (genCamelCase protocGen (GetName say)) ''hi'',
      Encode ''hi'', BodyClose]"
proof -
  have u: "\<not> GetServerStreaming say" "\<not> GetClientStreaming say"
    by (simp_all add: say_def)
  note t = unary_handler_status_taxonomy
             [OF u, of protocGen "''Echo''", THEN conjunct2, THEN conjunct2]
  have "trace unreadable (handlerBody protocGen say) =
     [BodyRead, Header 408, Write ''unexpected EOF'', Log ''unexpected EOF'', BodyClose]"
    using t [of unreadable] by (simp add: unreadable_def)
  moreover have "trace malformed (handlerBody protocGen say) =
     [BodyRead, Decode ''hi'', Header 400, Write ''invalid character'',
      Log ''invalid character'', BodyClose]"
    using t [of malformed] by (simp add: malformed_def echoing_def unreadable_def)
  moreover have "trace failing (handlerBody protocGen say) =
     [BodyRead, Decode ''hi'', Invoke (genCamelCase protocGen (GetName say)) ''hi'',
      Header 500, Write ''boom'', Log ''boom'', BodyClose]"
    using t [of failing] by (simp add: failing_def echoing_def unreadable_def)
  moreover have "trace echoing (handlerBody protocGen say) =
     [BodyRead, Decode ''hi'', Invoke (genCamelCase protocGen (GetName say)) ''hi'',
      Encode ''hi'', BodyClose]"
    using t [of echoing] by (simp add: echoing_def unreadable_def)
  ultimately show ?thesis by simp
qed

text \<open>
  Claim C4. For every method with a streaming flag set, \<^verbatim>\<open>generateServerMethod\<close> prints
  exactly the lines below, which are the rendering of \<open>handlerBody\<close>, and the handler
  they spell, whatever its collaborators would answer, sets status 501, writes the fixed
  text and returns: it decodes nothing, encodes nothing and does not invoke the service.
\<close>

theorem streaming_handler_rejects:
  assumes "GetServerStreaming method \<or> GetClientStreaming method"
  shows
    "fst (generateServerMethod g servName method) =
         [[],
          ''// _'' @ servName @ ''Server.'' @ genCamelCase g (GetName method) @ ''('' @
            genTypeName g (GetInputType method) @ '') '' @ genTypeName g (GetOutputType method),
          ''func (impl* _'' @ servName @ ''Server )'' @ genCamelCase g (GetName method) @
            ''(c web.C, w http.ResponseWriter, r *http.Request) {'',
          tab @ tab @ ''w.WriteHeader(501)'',
          tab @ tab @ ''w.Write([]byte('' @ bquote @
            ''Streaming functions over http are not supported'' @ bquote @ ''))'',
          tab @ tab @ ''return'',
          ''}'',
          []]
     \<and> drop 3 (fst (generateServerMethod g servName method)) =
         concat (map (render 2) (handlerBody g method)) @ [''}'', []]
     \<and> invoke W (handlerBody g method) =
         ([Header 501, Write ''Streaming functions over http are not supported''], Returned)"
proof (intro conjI)
  show "fst (generateServerMethod g servName method) =
       [[],
        ''// _'' @ servName @ ''Server.'' @ genCamelCase g (GetName method) @ ''('' @
          genTypeName g (GetInputType method) @ '') '' @ genTypeName g (GetOutputType method),
        ''func (impl* _'' @ servName @ ''Server )'' @ genCamelCase g (GetName method) @
          ''(c web.C, w http.ResponseWriter, r *http.Request) {'',
        tab @ tab @ ''w.WriteHeader(501)'',
        tab @ tab @ ''w.Write([]byte('' @ bquote @
          ''Streaming functions over http are not supported'' @ bquote @ ''))'',
        tab @ tab @ ''return'',
        ''}'',
        []]"
    by (rule generateServerMethod_streaming_text [OF assms])
  show "drop 3 (fst (generateServerMethod g servName method)) =
         concat (map (render 2) (handlerBody g method)) @ [''}'', []]"
    by (rule generateServerMethod_streaming_rendered [OF assms])
  show "invoke W (handlerBody g method) =
         ([Header 501, Write ''Streaming functions over http are not supported''], Returned)"
    using assms by (simp only: streaming_handlerBody invoke_streamingBody)
qed

theorem streaming_handler_rejects_witness:
  "(GetServerStreaming stream \<or> GetClientStreaming stream)
   \<and> invoke echoing (handlerBody protocGen stream) =
       ([Header 501, Write ''Streaming functions over http are not supported''], Returned)
   \<and> invoke failing (handlerBody protocGen (say \<lparr> GetClientStreaming := True \<rparr>)) =
       ([Header 501, Write ''Streaming functions over http are not supported''], Returned)"
proof -
  have s: "GetServerStreaming stream \<or> GetClientStreaming stream"
    by (simp add: stream_def)
  have c: "GetServerStreaming (say \<lparr> GetClientStreaming := True \<rparr>)
           \<or> GetClientStreaming (say \<lparr> GetClientStreaming := True \<rparr>)"
    by simp
  show ?thesis
    using s
      streaming_handler_rejects
        [OF s, of protocGen "''Echo''" echoing, THEN conjunct2, THEN conjunct2]
      streaming_handler_rejects
        [OF c, of protocGen "''Echo''" failing, THEN conjunct2, THEN conjunct2]
    by simp
qed

text \<open>
  Claim C5. For every unary method the emitted handler reads the body on its second line
  and defers \<^verbatim>\<open>r.Body.Close()\<close> on its third, before the first \<^verbatim>\<open>return\<close>; the emitted
  lines are the rendering of \<open>handlerBody\<close>. In every invocation the last call of the run
  is the closing of the request body, after the body was read, and the run does not
  fail: this holds for every answer of the collaborators, so on each of the four exit
  paths.
\<close>

theorem unary_handler_closes_body:
  assumes "\<not> GetServerStreaming method" and "\<not> GetClientStreaming method"
  shows "fst (generateServerMethod g servName method) ! 4 =
           tab @ ''content, err := ioutil.ReadAll(r.Body)''
         \<and> fst (generateServerMethod g servName method) ! 5 = tab @ ''defer r.Body.Close()''
         \<and> drop 3 (fst (generateServerMethod g servName method)) =
             concat (map (render 1) (handlerBody g method)) @ [''}'', []]
         \<and> (\<exists>es. trace W (handlerBody g method) = es @ [BodyClose]
              \<and> BodyRead \<in> set es \<and> BodyClose \<notin> set es)
         \<and> snd (invoke W (handlerBody g method)) \<noteq> Failed"
proof (intro conjI)
  show "fst (generateServerMethod g servName method) ! 4 =
           tab @ ''content, err := ioutil.ReadAll(r.Body)''"
    by (simp add: generateServerMethod_unary_text [OF assms])
  show "fst (generateServerMethod g servName method) ! 5 = tab @ ''defer r.Body.Close()''"
    by (simp add: generateServerMethod_unary_text [OF assms])
  show "drop 3 (fst (generateServerMethod g servName method)) =
             concat (map (render 1) (handlerBody g method)) @ [''}'', []]"
    by (rule generateServerMethod_unary_rendered [OF assms])
  show "\<exists>es. trace W (handlerBody g method) = es @ [BodyClose]
              \<and> BodyRead \<in> set es \<and> BodyClose \<notin> set es"
    using assms
    by (simp add: unary_handlerBody trace_def invoke_unaryBody split: option.splits)
  show "snd (invoke W (handlerBody g method)) \<noteq> Failed"
    using assms
    by (simp add: unary_handlerBody invoke_unaryBody split: option.splits)
qed

theorem unary_handler_closes_body_witness:
  "last (trace unreadable (handlerBody protocGen say)) = BodyClose
   \<and> last (trace malformed (handlerBody protocGen say)) = BodyClose
   \<and> last (trace failing (handlerBody protocGen say)) = BodyClose
   \<and> last (trace echoing (handlerBody protocGen say)) = BodyClose"
proof -
  have u: "\<not> GetServerStreaming say" "\<not> GetClientStreaming say"
    by (simp_all add: say_def)
  note t = unary_handler_closes_body
             [OF u, of protocGen "''Echo''", THEN conjunct2, THEN conjunct2, THEN conjunct2,
              THEN conjunct1]
  have "last (trace W (handlerBody protocGen say)) = BodyClose" for W :: "(string, string) world"
    using t [of W] by auto
  then show ?thesis by simp
qed

text \<open>
  Claim C9. A handler reads the request body exactly when its method is unary, and closes
  it exactly when its method is unary: with a streaming flag set the body is neither
  read nor closed.
\<close>

theorem body_touched_only_by_unary_handler:
  "(BodyRead \<in> set (trace W (handlerBody g method))
      \<longleftrightarrow> \<not> (GetServerStreaming method \<or> GetClientStreaming method))
   \<and> (BodyClose \<in> set (trace W (handlerBody g method))
      \<longleftrightarrow> \<not> (GetServerStreaming method \<or> GetClientStreaming method))"
  by (simp add: handlerBody_def trace_def invoke_unaryBody invoke_streamingBody
        split: option.splits)

theorem body_touched_only_by_unary_handler_witness:
  "BodyRead \<notin> set (trace echoing (handlerBody protocGen stream))
   \<and> BodyClose \<notin> set (trace echoing (handlerBody protocGen stream))
   \<and> BodyClose \<in> set (trace echoing (handlerBody protocGen say))"
  using body_touched_only_by_unary_handler [of echoing protocGen stream]
        body_touched_only_by_unary_handler [of echoing protocGen say]
  by (simp add: stream_def say_def)

end
